theory Spec2Isabelle
  imports Complex_Main "HOL-Library.Word"
begin

section \<open>Image post-processing nodes: a model of \<open>comfy_extras/nodes_post_processing.py\<close>\<close>

text \<open>
  The module defines six nodes (Blend, Blur, Quantize, Sharpen, Transpose, Rotate) over
  batches of images, torch tensors of shape \<open>(B, H, W, C)\<close>. A tensor is modelled by
  its shape and its values as nested lists; its 32-bit floats are modelled by the reals,
  so rounding inside float arithmetic is outside the model. A Python string is a list of
  characters with code points below 256. An exception is a value \<open>Inl e\<close> of a sum.
\<close>

subsection \<open>Exceptions\<close>

datatype py_error = ValueError | KeyError | RuntimeError

subsection \<open>Tensors\<close>

type_synonym shape4 = "nat \<times> nat \<times> nat \<times> nat"

type_synonym shape3 = "nat \<times> nat \<times> nat"

type_synonym 'a image = "'a list list list"

record 'a tensor =
  shape :: shape4
  vals :: "'a image list"

definition wf_image :: "nat \<Rightarrow> nat \<Rightarrow> nat \<Rightarrow> 'a image \<Rightarrow> bool" where
  "wf_image H W C im \<longleftrightarrow>
     length im = H \<and> (\<forall>row \<in> set im. length row = W \<and> (\<forall>px \<in> set row. length px = C))"


text \<open>Every scalar a tensor (an image) holds.\<close>

definition image_values :: "'a image \<Rightarrow> 'a set" where
  "image_values im = (\<Union>row \<in> set im. \<Union>px \<in> set row. set px)"

definition tensor_values :: "'a tensor \<Rightarrow> 'a set" where
  "tensor_values t = (\<Union>im \<in> set (vals t). image_values im)"

definition map_image :: "('a \<Rightarrow> 'b) \<Rightarrow> 'a image \<Rightarrow> 'b image" where
  "map_image f im = map (map (map f)) im"

definition map_tensor :: "('a \<Rightarrow> 'b) \<Rightarrow> 'a tensor \<Rightarrow> 'b tensor" where
  "map_tensor f t = \<lparr>shape = shape t, vals = map (map_image f) (vals t)\<rparr>"

text \<open>\<^verbatim>\<open>torch.zeros_like(image)\<close>\<close>

definition zeros_like :: "real tensor \<Rightarrow> real tensor" where
  "zeros_like t =
     (case shape t of (B, H, W, C) \<Rightarrow>
        \<lparr>shape = shape t, vals = replicate B (replicate H (replicate W (replicate C 0)))\<rparr>)"

subsection \<open>Broadcasting\<close>

text \<open>
  torch broadcasts two sizes of one dimension when they are equal or one of them is 1;
  a list of length 1 then stands for as many copies of its element as the other has.
\<close>

definition bdim :: "nat \<Rightarrow> nat \<Rightarrow> nat option" where
  "bdim a b = (if a = b then Some a else if a = 1 then Some b else if b = 1 then Some a else None)"

definition broadcast_shape :: "shape4 \<Rightarrow> shape4 \<Rightarrow> shape4 option" where
  "broadcast_shape s1 s2 =
     (case (s1, s2) of ((B1, H1, W1, C1), (B2, H2, W2, C2)) \<Rightarrow>
        (case (bdim B1 B2, bdim H1 H2, bdim W1 W2, bdim C1 C2) of
           (Some B, Some H, Some W, Some C) \<Rightarrow> Some (B, H, W, C)
         | _ \<Rightarrow> None))"

definition expand :: "nat \<Rightarrow> 'a list \<Rightarrow> 'a list" where
  "expand n xs = (if length xs = n then xs else replicate n (hd xs))"

definition broadcast_image :: "nat \<Rightarrow> nat \<Rightarrow> nat \<Rightarrow> 'a image \<Rightarrow> 'a image" where
  "broadcast_image H W C im = map (\<lambda>row. map (expand C) (expand W row)) (expand H im)"

definition broadcast_to :: "shape4 \<Rightarrow> 'a image list \<Rightarrow> 'a image list" where
  "broadcast_to s xs = (case s of (B, H, W, C) \<Rightarrow> map (broadcast_image H W C) (expand B xs))"

definition zip_vals :: "('a \<Rightarrow> 'b \<Rightarrow> 'c) \<Rightarrow> 'a image list \<Rightarrow> 'b image list \<Rightarrow> 'c image list" where
  "zip_vals f xs ys = map2 (map2 (map2 (map2 f))) xs ys"

text \<open>
  An elementwise binary operation of torch: a RuntimeError when the shapes do not
  broadcast; otherwise both operands are broadcast to the common shape and combined
  element by element.
\<close>

definition bin_op :: "('a \<Rightarrow> 'b \<Rightarrow> 'c) \<Rightarrow> 'a tensor \<Rightarrow> 'b tensor \<Rightarrow> py_error + 'c tensor" where
  "bin_op f a b =
     (case broadcast_shape (shape a) (shape b) of
        None \<Rightarrow> Inl RuntimeError
      | Some s \<Rightarrow>
          Inr \<lparr>shape = s,
               vals = zip_vals f (broadcast_to s (vals a)) (broadcast_to s (vals b))\<rparr>)"

text \<open>
  \<^verbatim>\<open>result[b] = value\<close>: the value, of shape \<open>(h, w, c)\<close>, is broadcast to the slice's
  shape \<open>(H, W, C)\<close>; torch raises a RuntimeError when a size of the value is neither the
  slice's nor 1.
\<close>

definition slice_of :: "shape4 \<Rightarrow> shape3 \<times> 'a image \<Rightarrow> 'a image option" where
  "slice_of s v =
     (case s of (B, H, W, C) \<Rightarrow>
        (case v of ((h, w, c), dat) \<Rightarrow>
           if (h = H \<or> h = 1) \<and> (w = W \<or> w = 1) \<and> (c = C \<or> c = 1)
           then Some (broadcast_image H W C dat)
           else None))"

definition setitem :: "real tensor \<Rightarrow> nat \<Rightarrow> shape3 \<times> real image \<Rightarrow> py_error + real tensor" where
  "setitem result b v =
     (case slice_of (shape result) v of
        None \<Rightarrow> Inl RuntimeError
      | Some im \<Rightarrow> Inr (result\<lparr>vals := (vals result)[b := im]\<rparr>))"

subsection \<open>Eight-bit images of the Pillow library\<close>

text \<open>
  \<^verbatim>\<open>(tensor_image * 255).to(torch.uint8)\<close>: the conversion drops the fraction (towards
  zero) and keeps the low eight bits. Between 0 and 1 that is \<open>floor (x * 255)\<close>.
\<close>

definition to_uint8 :: "real \<Rightarrow> 8 word" where
  "to_uint8 v = word_of_int (if 0 \<le> v then \<lfloor>v\<rfloor> else \<lceil>v\<rceil>)"

definition uint8_array :: "real image \<Rightarrow> 8 word image" where
  "uint8_array tensor_image = map_image (\<lambda>v. to_uint8 (v * 255)) tensor_image"

type_synonym rgb = "8 word \<times> 8 word \<times> 8 word"

text \<open>A Pillow image of mode RGB: its size is (width, height), its pixels are rows.\<close>

record pil_image =
  im_size :: "nat \<times> nat"
  pixels :: "rgb list list"

text \<open>A Pillow image of mode P: every pixel is an index into the palette.\<close>

record p_image =
  p_size :: "nat \<times> nat"
  p_palette :: "rgb list"
  p_indices :: "nat list list"

text \<open>
  \<^verbatim>\<open>Image.fromarray(img, mode='RGB')\<close> of an array of shape \<open>(H, W, C)\<close>. The model
  covers three channels; with another channel count the call, or the assignment to
  \<^verbatim>\<open>result[b]\<close> after it, raises.
\<close>

definition fromarray :: "shape3 \<Rightarrow> 8 word image \<Rightarrow> py_error + pil_image" where
  "fromarray shp img =
     (case shp of (H, W, C) \<Rightarrow>
        if C = 3
        then Inr \<lparr>im_size = (W, H), pixels = map (map (\<lambda>px. (px ! 0, px ! 1, px ! 2))) img\<rparr>
        else Inl ValueError)"

text \<open>
  \<^verbatim>\<open>torch.tensor(np.array(im.convert("RGB"))).float() / 255\<close>, with the array's shape:
  the array has the image's height times its width pixels of three channels.
\<close>

definition float_pixel :: "rgb \<Rightarrow> real list" where
  "float_pixel p =
     (case p of (r, g, b) \<Rightarrow> [real (unat r) / 255, real (unat g) / 255, real (unat b) / 255])"

definition float_array :: "pil_image \<Rightarrow> shape3 \<times> real image" where
  "float_array im =
     (case im_size im of (w, h) \<Rightarrow>
        ((h, w, 3), map (\<lambda>y. map (\<lambda>x. float_pixel (pixels im ! y ! x)) [0..<w]) [0..<h]))"

text \<open>
  \<^verbatim>\<open>convert("RGB")\<close> of a P image looks every index up in the palette. An index past
  the palette's entries reads as black here; the theorems below never rest on that.
\<close>

definition convert_rgb :: "p_image \<Rightarrow> pil_image" where
  "convert_rgb q =
     (case p_size q of (w, h) \<Rightarrow>
        \<lparr>im_size = (w, h),
         pixels = map (\<lambda>y. map (\<lambda>x.
                    (let i = p_indices q ! y ! x
                     in if i < length (p_palette q) then p_palette q ! i else (0, 0, 0)))
                    [0..<w]) [0..<h]\<rparr>)"

subsection \<open>The loop over the batch\<close>

text \<open>
  Quantize, Transpose and Rotate share one loop:
  \<^verbatim>\<open>for b in range(batch_size): ...; result[b] = array\<close>.
  The body maps the image \<^verbatim>\<open>image[b]\<close> to the array assigned, or raises.
  The tensor \<^verbatim>\<open>image\<close> is written \<open>image_t\<close>.
\<close>

fun per_image ::
  "(real image \<Rightarrow> py_error + shape3 \<times> real image) \<Rightarrow> real tensor \<Rightarrow> nat list \<Rightarrow>
   real tensor \<Rightarrow> py_error + real tensor" where
  "per_image body image_t [] result = Inr result"
| "per_image body image_t (b # bs) result =
     (case body (vals image_t ! b) of
        Inl e \<Rightarrow> Inl e
      | Inr arr \<Rightarrow>
          (case setitem result b arr of
             Inl e \<Rightarrow> Inl e
           | Inr result' \<Rightarrow> per_image body image_t bs result'))"

subsection \<open>Transpose\<close>

datatype transpose_method =
  FLIP_LEFT_RIGHT | FLIP_TOP_BOTTOM | ROTATE_90 | ROTATE_180 | ROTATE_270 | TRANSPOSE | TRANSVERSE

text \<open>The dictionary \<^verbatim>\<open>methods\<close>; the degree sign is the character 0xB0.\<close>

definition methods :: "string \<rightharpoonup> transpose_method" where
  "methods = map_of
     [(''Flip horizontal'', FLIP_LEFT_RIGHT),
      (''Flip vertical'', FLIP_TOP_BOTTOM),
      (''Rotate 90'' @ [CHR 0xB0], ROTATE_90),
      (''Rotate 180'' @ [CHR 0xB0], ROTATE_180),
      (''Rotate 270'' @ [CHR 0xB0], ROTATE_270),
      (''Transpose'', TRANSPOSE),
      (''Transverse'', TRANSVERSE)]"

definition mk_image :: "nat \<Rightarrow> nat \<Rightarrow> (nat \<Rightarrow> nat \<Rightarrow> rgb) \<Rightarrow> pil_image" where
  "mk_image w h f = \<lparr>im_size = (w, h), pixels = map (\<lambda>y. map (\<lambda>x. f x y) [0..<w]) [0..<h]\<rparr>"

text \<open>
  Pillow's \<^verbatim>\<open>Image.transpose\<close>, a library function, as its documentation gives it:
  a permutation of the pixels; the four methods that turn the image by a quarter or
  reflect it across a diagonal return an image of size (height, width).
  \<open>px x y\<close> is the pixel of column \<open>x\<close> and row \<open>y\<close>.
\<close>

definition pil_transpose :: "transpose_method \<Rightarrow> pil_image \<Rightarrow> pil_image" where
  "pil_transpose m im =
     (case im_size im of (w, h) \<Rightarrow>
        (let px = (\<lambda>x y. pixels im ! y ! x) in
         case m of
           FLIP_LEFT_RIGHT \<Rightarrow> mk_image w h (\<lambda>x y. px (w - 1 - x) y)
         | FLIP_TOP_BOTTOM \<Rightarrow> mk_image w h (\<lambda>x y. px x (h - 1 - y))
         | ROTATE_90 \<Rightarrow> mk_image h w (\<lambda>x y. px (w - 1 - y) x)
         | ROTATE_180 \<Rightarrow> mk_image w h (\<lambda>x y. px (w - 1 - x) (h - 1 - y))
         | ROTATE_270 \<Rightarrow> mk_image h w (\<lambda>x y. px y (h - 1 - x))
         | TRANSPOSE \<Rightarrow> mk_image h w (\<lambda>x y. px y x)
         | TRANSVERSE \<Rightarrow> mk_image h w (\<lambda>x y. px (w - 1 - y) (h - 1 - x))))"

definition transpose_body :: "shape3 \<Rightarrow> string \<Rightarrow> real image \<Rightarrow> py_error + shape3 \<times> real image" where
  "transpose_body shp method tensor_image =
     (case fromarray shp (uint8_array tensor_image) of
        Inl e \<Rightarrow> Inl e
      | Inr pil_im \<Rightarrow>
          (case methods method of
             None \<Rightarrow> Inl KeyError
           | Some m \<Rightarrow> Inr (float_array (pil_transpose m pil_im))))"

definition transpose_op :: "real tensor \<Rightarrow> string \<Rightarrow> py_error + real tensor" where
  "transpose_op image_t method =
     (case shape image_t of (batch_size, height, width, C) \<Rightarrow>
        per_image (transpose_body (height, width, C) method) image_t [0..<batch_size]
          (zeros_like image_t))"

subsection \<open>Rotate and its fill colour\<close>



definition is_digit :: "char \<Rightarrow> bool" where
  "is_digit c \<longleftrightarrow> c \<in> set ''0123456789''"











text \<open>\<^verbatim>\<open>str.lower()\<close> on code points below 256.\<close>

definition lower_char :: "char \<Rightarrow> char" where
  "lower_char c =
     (let n = (of_char c :: nat)
      in if (65 \<le> n \<and> n \<le> 90) \<or> (192 \<le> n \<and> n \<le> 222 \<and> n \<noteq> 215) then char_of (n + 32) else c)"












subsection \<open>Quantize\<close>

datatype dither = NONE | FLOYDSTEINBERG

text \<open>
  Pillow's \<^verbatim>\<open>Image.quantize(colors, palette=None, dither=FLOYDSTEINBERG)\<close> is the
  parameter \<open>pil_quantize\<close>: image, colors, the palette image if one is given, dither.
\<close>

type_synonym quantize_fn = "pil_image \<Rightarrow> nat \<Rightarrow> p_image option \<Rightarrow> dither \<Rightarrow> py_error + p_image"

definition quantize_body ::
  "quantize_fn \<Rightarrow> shape3 \<Rightarrow> nat \<Rightarrow> dither \<Rightarrow> real image \<Rightarrow> py_error + shape3 \<times> real image" where
  "quantize_body pil_quantize shp colors dither_option tensor_image =
     (case fromarray shp (uint8_array tensor_image) of
        Inl e \<Rightarrow> Inl e
      | Inr pil_im \<Rightarrow>
          (case pil_quantize pil_im colors None FLOYDSTEINBERG of
             Inl e \<Rightarrow> Inl e
           | Inr pal \<Rightarrow>
               (case pil_quantize pil_im colors (Some pal) dither_option of
                  Inl e \<Rightarrow> Inl e
                | Inr quantized_image \<Rightarrow> Inr (float_array (convert_rgb quantized_image)))))"

definition quantize :: "quantize_fn \<Rightarrow> real tensor \<Rightarrow> nat \<Rightarrow> string \<Rightarrow> py_error + real tensor" where
  "quantize pil_quantize image_t colors dither =
     (case shape image_t of (batch_size, height, width, C) \<Rightarrow>
        (let dither_option = (if dither = ''floyd-steinberg'' then FLOYDSTEINBERG else NONE)
         in per_image (quantize_body pil_quantize (height, width, C) colors dither_option)
              image_t [0..<batch_size] (zeros_like image_t)))"

subsection \<open>Blend\<close>

text \<open>
  Tensor expressions: every operand is a tensor or an exception already raised. A scalar
  operand applies to every element; two tensors are combined by \<open>bin_op\<close>.
\<close>

type_synonym res = "py_error + real tensor"

definition lift1 :: "(real \<Rightarrow> real) \<Rightarrow> res \<Rightarrow> res" where
  "lift1 f x = (case x of Inl e \<Rightarrow> Inl e | Inr a \<Rightarrow> Inr (map_tensor f a))"

definition lift2 ::
  "('a \<Rightarrow> 'b \<Rightarrow> 'c) \<Rightarrow> py_error + 'a tensor \<Rightarrow> py_error + 'b tensor \<Rightarrow> py_error + 'c tensor" where
  "lift2 f x y =
     (case x of
        Inl e \<Rightarrow> Inl e
      | Inr a \<Rightarrow> (case y of Inl e \<Rightarrow> Inl e | Inr b \<Rightarrow> bin_op f a b))"

definition t_mul :: "res \<Rightarrow> res \<Rightarrow> res" where
  "t_mul x y = lift2 (\<lambda>u v. u * v) x y"

definition t_add :: "res \<Rightarrow> res \<Rightarrow> res" where
  "t_add x y = lift2 (\<lambda>u v. u + v) x y"

definition t_sub :: "res \<Rightarrow> res \<Rightarrow> res" where
  "t_sub x y = lift2 (\<lambda>u v. u - v) x y"

text \<open>\<open>c * x\<close>, \<open>x * c\<close>, \<open>c - x\<close>, \<open>x - c\<close> and \<open>x + c\<close> for a scalar \<open>c\<close>.\<close>

definition s_mul :: "real \<Rightarrow> res \<Rightarrow> res" where
  "s_mul c x = lift1 (\<lambda>v. c * v) x"

definition mul_s :: "res \<Rightarrow> real \<Rightarrow> res" where
  "mul_s x c = lift1 (\<lambda>v. v * c) x"

definition s_rsub :: "real \<Rightarrow> res \<Rightarrow> res" where
  "s_rsub c x = lift1 (\<lambda>v. c - v) x"

definition sub_s :: "res \<Rightarrow> real \<Rightarrow> res" where
  "sub_s x c = lift1 (\<lambda>v. v - c) x"

definition add_s :: "res \<Rightarrow> real \<Rightarrow> res" where
  "add_s x c = lift1 (\<lambda>v. v + c) x"

text \<open>\<^verbatim>\<open>x <= c\<close>, a tensor of booleans, and \<^verbatim>\<open>torch.where(cond, x, y)\<close>.\<close>

definition le_scalar :: "real tensor \<Rightarrow> real \<Rightarrow> bool tensor" where
  "le_scalar x c = map_tensor (\<lambda>v. v \<le> c) x"

definition t_where :: "bool tensor \<Rightarrow> res \<Rightarrow> res \<Rightarrow> res" where
  "t_where cond x y =
     (case x of
        Inl e \<Rightarrow> Inl e
      | Inr a \<Rightarrow>
          (case y of
             Inl e \<Rightarrow> Inl e
           | Inr b \<Rightarrow>
               (case bin_op Pair cond a of
                  Inl e \<Rightarrow> Inl e
                | Inr ca \<Rightarrow> bin_op (\<lambda>p v. if fst p then snd p else v) ca b)))"

text \<open>\<^verbatim>\<open>torch.clamp(x, 0, 1)\<close>\<close>

definition clamp01 :: "real \<Rightarrow> real" where
  "clamp01 v = min (max v 0) 1"

definition g :: "real tensor \<Rightarrow> res" where
  "g x =
     t_where (le_scalar x (1 / 4))
       (t_mul (add_s (t_mul (sub_s (s_mul 16 (Inr x)) 12) (Inr x)) 4) (Inr x))
       (lift1 sqrt (Inr x))"

definition blend_mode :: "real tensor \<Rightarrow> real tensor \<Rightarrow> string \<Rightarrow> res" where
  "blend_mode img1 img2 mode =
     (let i1 = Inr img1; i2 = Inr img2 in
      if mode = ''normal'' then i2
      else if mode = ''multiply'' then t_mul i1 i2
      else if mode = ''screen'' then s_rsub 1 (t_mul (s_rsub 1 i1) (s_rsub 1 i2))
      else if mode = ''overlay'' then
        t_where (le_scalar img1 (1 / 2))
          (t_mul (s_mul 2 i1) i2)
          (s_rsub 1 (t_mul (s_mul 2 (s_rsub 1 i1)) (s_rsub 1 i2)))
      else if mode = ''soft_light'' then
        t_where (le_scalar img2 (1 / 2))
          (t_sub i1 (t_mul (t_mul (s_rsub 1 (s_mul 2 i2)) i1) (s_rsub 1 i1)))
          (t_add i1 (t_mul (sub_s (s_mul 2 i2) 1) (t_sub (g img1) i1)))
      else Inl ValueError)"

text \<open>
  \<^verbatim>\<open>comfy.utils.common_upscale\<close> is not in this module. The parameter \<open>upscale\<close>
  stands for the three lines that permute \<^verbatim>\<open>image2\<close> to channels first, resample it
  (bicubic, cropped at the centre) to the width and height given, and permute it back.
\<close>

type_synonym upscale_fn = "real tensor \<Rightarrow> nat \<Rightarrow> nat \<Rightarrow> real tensor"

text \<open>The last three statements of \<^verbatim>\<open>blend_images\<close>, with \<^verbatim>\<open>image2\<close> as resized.\<close>

definition blend_resized :: "real tensor \<Rightarrow> real tensor \<Rightarrow> real \<Rightarrow> string \<Rightarrow> res" where
  "blend_resized image1 image2 blend_factor mode =
     (let blended_image = blend_mode image1 image2 mode;
          blended_image =
            t_add (mul_s (Inr image1) (1 - blend_factor)) (mul_s blended_image blend_factor)
      in lift1 clamp01 blended_image)"

definition blend_images :: "upscale_fn \<Rightarrow> real tensor \<Rightarrow> real tensor \<Rightarrow> real \<Rightarrow> string \<Rightarrow> res" where
  "blend_images upscale image1 image2 blend_factor mode =
     (let image2 =
            (if shape image1 \<noteq> shape image2
             then (case shape image1 of (B1, H1, W1, C1) \<Rightarrow> upscale image2 W1 H1)
             else image2)
      in blend_resized image1 image2 blend_factor mode)"

subsection \<open>Kernels and convolution\<close>

definition map2d :: "('a \<Rightarrow> 'b) \<Rightarrow> 'a list list \<Rightarrow> 'b list list" where
  "map2d f m = map (map f) m"

definition zip2d :: "('a \<Rightarrow> 'b \<Rightarrow> 'c) \<Rightarrow> 'a list list \<Rightarrow> 'b list list \<Rightarrow> 'c list list" where
  "zip2d f a b = map2 (map2 f) a b"

definition sum2d :: "real list list \<Rightarrow> real" where
  "sum2d m = sum_list (map sum_list m)"

text \<open>\<^verbatim>\<open>torch.linspace(start, end, steps)\<close>\<close>

definition linspace :: "real \<Rightarrow> real \<Rightarrow> nat \<Rightarrow> real list" where
  "linspace a b n =
     (if n = 1 then [a] else map (\<lambda>i. a + real i * ((b - a) / real (n - 1))) [0..<n])"

text \<open>\<^verbatim>\<open>torch.meshgrid(xs, ys, indexing="ij")\<close>: the two grids.\<close>

definition meshgrid_x :: "real list \<Rightarrow> real list \<Rightarrow> real list list" where
  "meshgrid_x xs ys = map (\<lambda>x. map (\<lambda>y. x) ys) xs"

definition meshgrid_y :: "real list \<Rightarrow> real list \<Rightarrow> real list list" where
  "meshgrid_y xs ys = map (\<lambda>x. map (\<lambda>y. y) ys) xs"

definition gaussian_kernel :: "nat \<Rightarrow> real \<Rightarrow> real list list" where
  "gaussian_kernel kernel_size sigma =
     (let x = meshgrid_x (linspace (- 1) 1 kernel_size) (linspace (- 1) 1 kernel_size);
          y = meshgrid_y (linspace (- 1) 1 kernel_size) (linspace (- 1) 1 kernel_size);
          d = map2d sqrt (zip2d (\<lambda>u v. u + v) (zip2d (\<lambda>u v. u * v) x x) (zip2d (\<lambda>u v. u * v) y y));
          gs = map2d (\<lambda>v. exp (- v / (2 * sigma * sigma))) (zip2d (\<lambda>u v. u * v) d d)
      in map2d (\<lambda>v. v / sum2d gs) gs)"

text \<open>
  \<^verbatim>\<open>F.conv2d(image, kernel, padding=p, groups=channels)\<close> of torch, a library function:
  every channel is correlated with the same two-dimensional kernel, the image padded
  with \<open>p\<close> zeros on every side. The source permutes the tensor to channels first before
  the call and back after it; the model indexes the channels-last tensor directly.
\<close>

definition pad_get :: "real image \<Rightarrow> int \<Rightarrow> int \<Rightarrow> nat \<Rightarrow> real" where
  "pad_get im y x c =
     (if 0 \<le> y \<and> y < int (length im) \<and> 0 \<le> x \<and> x < int (length (im ! nat y))
      then im ! nat y ! nat x ! c else 0)"

text \<open>The variable \<^verbatim>\<open>kernel\<close> of the source is written \<open>kern\<close>.\<close>

definition conv2d :: "real list list \<Rightarrow> nat \<Rightarrow> real tensor \<Rightarrow> real tensor" where
  "conv2d kern padding t =
     (case shape t of (B, H, W, C) \<Rightarrow>
        (let n = length kern; H' = H + 2 * padding + 1 - n; W' = W + 2 * padding + 1 - n in
         \<lparr>shape = (B, H', W', C),
          vals = map (\<lambda>im.
                   map (\<lambda>y. map (\<lambda>x. map (\<lambda>c.
                     sum_list (map (\<lambda>i. sum_list (map (\<lambda>j.
                        kern ! i ! j *
                        pad_get im (int y + int i - int padding) (int x + int j - int padding) c)
                       [0..<n])) [0..<n]))
                     [0..<C]) [0..<W']) [0..<H'])
                   (vals t)\<rparr>))"

definition blur :: "real tensor \<Rightarrow> nat \<Rightarrow> real \<Rightarrow> real tensor" where
  "blur image_t blur_radius sigma =
     (if blur_radius = 0 then image_t
      else
        (let kernel_size = blur_radius * 2 + 1;
             kern = gaussian_kernel kernel_size sigma
         in conv2d kern (kernel_size div 2) image_t))"

text \<open>
  The kernel of \<^verbatim>\<open>Sharpen.sharpen\<close>: ones times -1, the centre set to
  \<^verbatim>\<open>kernel_size**2\<close>, all of it times alpha.
\<close>

definition sharpen_kernel :: "nat \<Rightarrow> real \<Rightarrow> real list list" where
  "sharpen_kernel sharpen_radius alpha =
     (let kernel_size = sharpen_radius * 2 + 1;
          kern = map2d (\<lambda>v. v * (- 1)) (replicate kernel_size (replicate kernel_size 1));
          center = kernel_size div 2;
          kern = kern[center := (kern ! center)[center := real (kernel_size ^ 2)]];
          kern = map2d (\<lambda>v. v * alpha) kern
      in kern)"

definition sharpen :: "real tensor \<Rightarrow> nat \<Rightarrow> real \<Rightarrow> real tensor" where
  "sharpen image_t sharpen_radius alpha =
     (if sharpen_radius = 0 then image_t
      else
        (let kernel_size = sharpen_radius * 2 + 1;
             kern = sharpen_kernel sharpen_radius alpha;
             center = kernel_size div 2;
             sharpened = conv2d kern center image_t
         in map_tensor clamp01 sharpened))"

subsection \<open>The Gaussian kernel, as the specification words it\<close>

text \<open>
  A square grid of side \<open>n\<close>; the \<open>i\<close>-th of \<open>n\<close> coordinates spaced evenly from -1 to 1;
  and the Gaussian \<open>exp (- (x\<^sup>2 + y\<^sup>2) / (2 sigma\<^sup>2))\<close> at the grid point \<open>(i, j)\<close>.
\<close>

definition grid :: "nat \<Rightarrow> (nat \<Rightarrow> nat \<Rightarrow> 'a) \<Rightarrow> 'a list list" where
  "grid n f = map (\<lambda>i. map (\<lambda>j. f i j) [0..<n]) [0..<n]"

definition coord :: "nat \<Rightarrow> nat \<Rightarrow> real" where
  "coord n i = - 1 + real i * (2 / real (n - 1))"

definition gauss :: "nat \<Rightarrow> real \<Rightarrow> nat \<Rightarrow> nat \<Rightarrow> real" where
  "gauss n sigma i j = exp (- ((coord n i)\<^sup>2 + (coord n j)\<^sup>2) / (2 * sigma\<^sup>2))"

subsection \<open>The eight-bit lattice\<close>



subsection \<open>Pillow's quantize, as the specification words it\<close>

text \<open>The colours of an image: the set of its pixels.\<close>

definition image_colors :: "'a image \<Rightarrow> 'a list set" where
  "image_colors im = (\<Union>row \<in> set im. set row)"

text \<open>
  Modelled from the spec: Pillow's \<^verbatim>\<open>Image.quantize\<close> is a library function that is
  not among the sources. The specification (section 4.3) describes it in two steps:
  (1) build a representative palette of at most \<^verbatim>\<open>colors\<close> entries from the image;
  (2) re-quantize the image against that exact palette, every pixel mapped to a colour
  of the palette. A quantizer that keeps to this returns, without a palette given, a
  palette of at most \<open>K\<close> entries, and with a palette given, that palette and for every
  pixel an index of one of its entries.
\<close>

definition pil_quantize_contract :: "quantize_fn \<Rightarrow> bool" where
  "pil_quantize_contract pil_quantize \<longleftrightarrow>
     (\<forall>im K d pal q.
        (pil_quantize im K None d = Inr q \<longrightarrow> length (p_palette q) \<le> K) \<and>
        (pil_quantize im K (Some pal) d = Inr q \<longrightarrow>
           p_palette q = p_palette pal \<and>
           (\<forall>y < snd (p_size q). \<forall>x < fst (p_size q).
              p_indices q ! y ! x < length (p_palette q))))"

text \<open>
  The simplest quantizer that keeps to it, for the examples below: the palette is the
  colour of the first pixel (cut to \<open>K\<close> entries), and every pixel is mapped to entry 0.
\<close>

definition first_color_quantize :: quantize_fn where
  "first_color_quantize im K pal d =
     (case pal of
        None \<Rightarrow>
          Inr \<lparr>p_size = im_size im, p_palette = take K [pixels im ! 0 ! 0], p_indices = []\<rparr>
      | Some p \<Rightarrow>
          if p_palette p = [] then Inl ValueError
          else Inr \<lparr>p_size = im_size im, p_palette = p_palette p,
                    p_indices = replicate (snd (im_size im)) (replicate (fst (im_size im)) 0)\<rparr>)"

subsection \<open>The fill colours the parser takes\<close>












section \<open>Properties\<close>

subsection \<open>Transpose: the shape of the result\<close>

lemma pil_transpose_size:
  "m \<in> {ROTATE_90, ROTATE_270, TRANSPOSE, TRANSVERSE} \<Longrightarrow> im_size im = (w, h) \<Longrightarrow>
   im_size (pil_transpose m im) = (h, w)"
  by (auto simp: pil_transpose_def mk_image_def Let_def)

text \<open>
  The result buffer is \<^verbatim>\<open>torch.zeros_like(image)\<close>, of the input's shape. For an
  image that is not square, a quarter turn or a reflection across a diagonal gives an
  array of shape \<open>(W, H, 3)\<close>, and its assignment to the slice of shape \<open>(H, W, 3)\<close>
  raises: no batch with \<open>H \<noteq> W\<close> and at least one image is transposed this way.
\<close>

lemma transpose_turned_raises:
  assumes "shape image_t = (Suc n, H, W, 3)" "H \<noteq> W" "methods method = Some m"
    "m \<in> {ROTATE_90, ROTATE_270, TRANSPOSE, TRANSVERSE}"
  shows "transpose_op image_t method = Inl RuntimeError"
proof -
  obtain pim where f: "fromarray (H, W, 3) (uint8_array (vals image_t ! 0)) = Inr pim"
    and sz: "im_size pim = (W, H)"
    by (simp add: fromarray_def)
  have sz': "im_size (pil_transpose m pim) = (H, W)"
    using pil_transpose_size [OF assms(4) sz] .
  have b: "transpose_body (H, W, 3) method (vals image_t ! 0) =
      Inr (float_array (pil_transpose m pim))"
    by (simp add: transpose_body_def f assms(3))
  have fa: "fst (float_array (pil_transpose m pim)) = (W, H, 3)"
    by (simp add: float_array_def sz')
  have s: "setitem (zeros_like image_t) 0 (float_array (pil_transpose m pim)) = Inl RuntimeError"
    using fa assms(1,2)
    by (cases "float_array (pil_transpose m pim)") (auto simp: setitem_def slice_of_def zeros_like_def)
  have u: "[0..<Suc n] = 0 # [Suc 0..<Suc n]"
    by (simp add: upt_conv_Cons)
  show ?thesis
    by (simp add: transpose_op_def assms(1) u b s del: upt_Suc)
qed

text \<open>
  Claim C2 says that Rotate 90, Rotate 270, Transpose and Transverse return a batch of
  shape \<open>(B, W, H, C)\<close> for every input of shape \<open>(B, H, W, C)\<close>, also when \<open>H \<noteq> W\<close>.
  On a batch of one image of height 1 and width 2 the code raises instead.
\<close>

theorem transpose_rotate90_nonsquare_raises:
  "transpose_op \<lparr>shape = (1, 1, 2, 3), vals = [[[[0, 0, 0], [1, 1, 1]]]]\<rparr>
     (''Rotate 90'' @ [CHR 0xB0]) = Inl RuntimeError"
  by (simp add: transpose_op_def zeros_like_def transpose_body_def fromarray_def methods_def
      float_array_def pil_transpose_def mk_image_def setitem_def slice_of_def)

subsection \<open>Strings that are not members of an enumeration\<close>

text \<open>
  Claim C1 says that a string outside the listed members of an enumeration raises in
  every operation, and that Quantize does not fall back to no dithering. In the code the
  dither option is chosen by one comparison with \<^verbatim>\<open>"floyd-steinberg"\<close>; every other
  string, the signature's own default \<^verbatim>\<open>"FLOYDSTEINBERG"\<close> among them, is treated as
  \<^verbatim>\<open>"none"\<close>.
\<close>

theorem quantize_unlisted_dither_is_none:
  "quantize pil_quantize image_t colors ''FLOYDSTEINBERG'' =
   quantize pil_quantize image_t colors ''none''"
  by (simp add: quantize_def)

subsection \<open>Sharpen: the kernel and the clamp\<close>

lemma tensor_values_map: "tensor_values (map_tensor f t) = f ` tensor_values t"
  by (auto simp: tensor_values_def map_tensor_def image_values_def map_image_def)

lemma clamp01_range: "0 \<le> clamp01 v \<and> clamp01 v \<le> 1"
  by (simp add: clamp01_def)

lemma centre_kernel_nth:
  "c < n \<Longrightarrow> i < n \<Longrightarrow> j < n \<Longrightarrow>
   map2d (\<lambda>v. v * alpha)
     ((map2d (\<lambda>v. v * (- 1)) (replicate n (replicate n (1::real))))
        [c := (map2d (\<lambda>v. v * (- 1)) (replicate n (replicate n 1)) ! c)[c := x]]) ! i ! j =
   (if i = c \<and> j = c then x * alpha else - alpha)"
  by (simp add: map2d_def nth_list_update)

lemma centre_kernel_length:
  "length (map2d f ((map2d h (replicate n (replicate n (1::real))))
        [c := (map2d h (replicate n (replicate n 1)) ! c)[c := x]])) = n"
  "c < n \<Longrightarrow> i < n \<Longrightarrow>
   length (map2d f ((map2d h (replicate n (replicate n (1::real))))
        [c := (map2d h (replicate n (replicate n 1)) ! c)[c := x]]) ! i) = n"
  by (simp_all add: map2d_def nth_list_update)

lemma sharpen_kernel_nth:
  assumes "i < 2 * r + 1" "j < 2 * r + 1"
  shows "sharpen_kernel r alpha ! i ! j =
    (if i = r \<and> j = r then alpha * real ((2 * r + 1) ^ 2) else - alpha)"
proof -
  have c: "(r * 2 + 1) div 2 = r" by simp
  have "sharpen_kernel r alpha ! i ! j =
      (if i = r \<and> j = r then real ((r * 2 + 1) ^ 2) * alpha else - alpha)"
    unfolding sharpen_kernel_def Let_def c
    by (rule centre_kernel_nth) (use assms in simp_all)
  then show ?thesis
    by (simp add: mult.commute)
qed

lemma sharpen_kernel_length:
  "length (sharpen_kernel r alpha) = 2 * r + 1"
  "i < 2 * r + 1 \<Longrightarrow> length (sharpen_kernel r alpha ! i) = 2 * r + 1"
proof -
  have c: "(r * 2 + 1) div 2 = r" by simp
  have n: "2 * r + 1 = r * 2 + 1" by simp
  show "length (sharpen_kernel r alpha) = 2 * r + 1"
    unfolding sharpen_kernel_def Let_def c n by (rule centre_kernel_length(1))
  show "i < 2 * r + 1 \<Longrightarrow> length (sharpen_kernel r alpha ! i) = 2 * r + 1"
    unfolding sharpen_kernel_def Let_def c n by (rule centre_kernel_length(2)) simp_all
qed

text \<open>
  Claim C7: for every radius \<open>r \<ge> 1\<close> (and every alpha) the sharpen kernel is a square of
  side \<open>2r + 1\<close> whose cells are \<open>- alpha\<close>, except the centre cell, which is
  \<open>alpha * (2r + 1)\<^sup>2\<close>; the result of sharpen is the convolution with that kernel,
  clamped, so every value of it lies between 0 and 1 whatever the convolution gives.
\<close>

theorem sharpen_kernel_cells_and_clamped_output:
  assumes "1 \<le> r"
  shows "length (sharpen_kernel r alpha) = 2 * r + 1 \<and>
    (\<forall>i < 2 * r + 1. length (sharpen_kernel r alpha ! i) = 2 * r + 1 \<and>
       (\<forall>j < 2 * r + 1. sharpen_kernel r alpha ! i ! j =
          (if i = r \<and> j = r then alpha * real ((2 * r + 1) ^ 2) else - alpha))) \<and>
    sharpen image_t r alpha = map_tensor clamp01 (conv2d (sharpen_kernel r alpha) r image_t) \<and>
    (\<forall>v \<in> tensor_values (sharpen image_t r alpha). 0 \<le> v \<and> v \<le> 1)"
proof -
  have s: "sharpen image_t r alpha = map_tensor clamp01 (conv2d (sharpen_kernel r alpha) r image_t)"
    using assms by (simp add: sharpen_def Let_def)
  have v: "\<forall>v \<in> tensor_values (sharpen image_t r alpha). 0 \<le> v \<and> v \<le> 1"
    unfolding s tensor_values_map using clamp01_range by blast
  show ?thesis
    using s v sharpen_kernel_nth sharpen_kernel_length by simp
qed

text \<open>
  At radius 1 and alpha 1, on one pixel of value 1: the convolution gives 9, the result
  is 1.
\<close>

theorem sharpen_kernel_cells_and_clamped_output_witness:
  "sharpen_kernel 1 1 = [[- 1, - 1, - 1], [- 1, 9, - 1], [- 1, - 1, - 1]] \<and>
   conv2d (sharpen_kernel 1 1) 1 \<lparr>shape = (1, 1, 1, 1), vals = [[[[1]]]]\<rparr> =
     \<lparr>shape = (1, 1, 1, 1), vals = [[[[9]]]]\<rparr> \<and>
   sharpen \<lparr>shape = (1, 1, 1, 1), vals = [[[[1]]]]\<rparr> 1 1 =
     \<lparr>shape = (1, 1, 1, 1), vals = [[[[1]]]]\<rparr> \<and>
   tensor_values (sharpen \<lparr>shape = (1, 1, 1, 1), vals = [[[[1]]]]\<rparr> 1 1) \<subseteq> {0..1}"
proof -
  have k: "sharpen_kernel 1 1 = [[- 1, - 1, - 1], [- 1, 9, - 1], [- 1, - 1, - 1]]"
    by (simp add: sharpen_kernel_def Let_def map2d_def numeral_3_eq_3)
  have u: "[0..<3] = [0, 1, 2]" by (simp add: upt_rec)
  have c: "conv2d (sharpen_kernel 1 1) 1 \<lparr>shape = (1, 1, 1, 1), vals = [[[[1]]]]\<rparr> =
     \<lparr>shape = (1, 1, 1, 1), vals = [[[[9]]]]\<rparr>"
    unfolding k by (simp add: conv2d_def Let_def pad_get_def u)
  have "sharpen \<lparr>shape = (1, 1, 1, 1), vals = [[[[1]]]]\<rparr> 1 1 =
      map_tensor clamp01 (conv2d (sharpen_kernel 1 1) 1 \<lparr>shape = (1, 1, 1, 1), vals = [[[[1]]]]\<rparr>)"
    by (simp add: sharpen_def Let_def)
  also have "\<dots> = \<lparr>shape = (1, 1, 1, 1), vals = [[[[1]]]]\<rparr>"
    unfolding c by (simp add: map_tensor_def map_image_def clamp01_def)
  finally have s: "sharpen \<lparr>shape = (1, 1, 1, 1), vals = [[[[1]]]]\<rparr> 1 1 =
     \<lparr>shape = (1, 1, 1, 1), vals = [[[[1]]]]\<rparr>" .
  have "\<forall>v \<in> tensor_values (sharpen \<lparr>shape = (1, 1, 1, 1), vals = [[[[1]]]]\<rparr> 1 1). 0 \<le> v \<and> v \<le> 1"
    using sharpen_kernel_cells_and_clamped_output
      [where r = 1 and alpha = 1 and image_t = "\<lparr>shape = (1, 1, 1, 1), vals = [[[[1]]]]\<rparr>"]
    by simp
  then have v: "tensor_values (sharpen \<lparr>shape = (1, 1, 1, 1), vals = [[[[1]]]]\<rparr> 1 1) \<subseteq> {0..1}"
    by auto
  show ?thesis
    using k c s v by blast
qed

subsection \<open>Blur: the Gaussian kernel\<close>

lemma map2_same: "map2 F (map A xs) (map B xs) = map (\<lambda>x. F (A x) (B x)) xs"
  by (induction xs) auto

lemma map2d_grid: "map2d f (grid n a) = grid n (\<lambda>i j. f (a i j))"
  by (simp add: map2d_def grid_def comp_def)

lemma zip2d_grid: "zip2d f (grid n a) (grid n b) = grid n (\<lambda>i j. f (a i j) (b i j))"
  unfolding zip2d_def grid_def by (simp only: map2_same)

lemma sum_list_upt: "sum_list (map f [0..<n]) = (\<Sum>i<n. f i)"
  by (simp add: interv_sum_list_conv_sum_set_nat atLeast0LessThan)

lemma sum2d_grid: "sum2d (grid n a) = (\<Sum>i<n. \<Sum>j<n. a i j)"
  by (simp add: sum2d_def grid_def comp_def sum_list_upt)

lemma grid_nth: "i < n \<Longrightarrow> j < n \<Longrightarrow> grid n f ! i ! j = f i j"
  by (simp add: grid_def)

lemma grid_length: "length (grid n f) = n" "i < n \<Longrightarrow> length (grid n f ! i) = n"
  by (simp_all add: grid_def)

lemma linspace_coord: "n \<noteq> 1 \<Longrightarrow> linspace (- 1) 1 n = map (coord n) [0..<n]"
  by (simp add: linspace_def coord_def)

lemma gauss_sum_pos: "0 < n \<Longrightarrow> 0 < (\<Sum>i<n. \<Sum>j<n. gauss n sigma i j)"
  by (intro sum_pos) (auto simp: gauss_def)

lemma gaussian_kernel_grid:
  assumes "n \<noteq> 1"
  shows "gaussian_kernel n sigma =
    grid n (\<lambda>i j. gauss n sigma i j / (\<Sum>i'<n. \<Sum>j'<n. gauss n sigma i' j'))"
proof -
  have x: "meshgrid_x (map (coord n) [0..<n]) (map (coord n) [0..<n]) = grid n (\<lambda>i j. coord n i)"
    by (simp add: meshgrid_x_def grid_def comp_def)
  have y: "meshgrid_y (map (coord n) [0..<n]) (map (coord n) [0..<n]) = grid n (\<lambda>i j. coord n j)"
    by (simp add: meshgrid_y_def grid_def comp_def)
  have e: "exp (- (sqrt (a * a + b * b) * sqrt (a * a + b * b)) / (2 * sigma * sigma)) =
      exp (- (a\<^sup>2 + b\<^sup>2) / (2 * sigma\<^sup>2))" for a b :: real
    by (simp add: power2_eq_square)
  show ?thesis
    unfolding gaussian_kernel_def Let_def linspace_coord [OF assms] x y
      zip2d_grid map2d_grid sum2d_grid e gauss_def [symmetric]
    by (rule refl)
qed

text \<open>
  Claim C6: for every radius \<open>r \<ge> 1\<close> and sigma between 0.1 and 10 the blur kernel is
  a square of side \<open>2r + 1\<close>; its cell \<open>(i, j)\<close> is the Gaussian at coordinates spaced
  evenly from -1 to 1 whatever \<open>r\<close> is, divided by the sum of all cells; so the cells sum
  to 1 (exactly, the floats being modelled by the reals, and so within 1e-5).
\<close>

theorem gaussian_kernel_cells_and_sum:
  assumes "1 \<le> r" "1 / 10 \<le> sigma" "sigma \<le> 10"
  shows "length (gaussian_kernel (2 * r + 1) sigma) = 2 * r + 1 \<and>
    (\<forall>i < 2 * r + 1. length (gaussian_kernel (2 * r + 1) sigma ! i) = 2 * r + 1 \<and>
       (\<forall>j < 2 * r + 1. gaussian_kernel (2 * r + 1) sigma ! i ! j =
          exp (- ((coord (2 * r + 1) i)\<^sup>2 + (coord (2 * r + 1) j)\<^sup>2) / (2 * sigma\<^sup>2)) /
          (\<Sum>i' < 2 * r + 1. \<Sum>j' < 2 * r + 1.
             exp (- ((coord (2 * r + 1) i')\<^sup>2 + (coord (2 * r + 1) j')\<^sup>2) / (2 * sigma\<^sup>2))))) \<and>
    coord (2 * r + 1) 0 = - 1 \<and> coord (2 * r + 1) (2 * r) = 1 \<and>
    sum2d (gaussian_kernel (2 * r + 1) sigma) = 1 \<and>
    \<bar>sum2d (gaussian_kernel (2 * r + 1) sigma) - 1\<bar> \<le> 1 / 10 ^ 5"
proof -
  let ?n = "2 * r + 1"
  have n: "?n \<noteq> 1" using assms(1) by simp
  note k = gaussian_kernel_grid [OF n, of sigma]
  have pos: "0 < (\<Sum>i<?n. \<Sum>j<?n. gauss ?n sigma i j)"
    by (rule gauss_sum_pos) simp
  have s: "sum2d (gaussian_kernel ?n sigma) = 1"
    unfolding k sum2d_grid using pos
    by (simp add: sum_divide_distrib [symmetric])
  have c: "coord ?n 0 = - 1" "coord ?n (2 * r) = 1"
    using assms(1) by (simp_all add: coord_def)
  have cells: "\<forall>i < ?n. length (gaussian_kernel ?n sigma ! i) = ?n \<and>
       (\<forall>j < ?n. gaussian_kernel ?n sigma ! i ! j =
          exp (- ((coord ?n i)\<^sup>2 + (coord ?n j)\<^sup>2) / (2 * sigma\<^sup>2)) /
          (\<Sum>i' < ?n. \<Sum>j' < ?n. exp (- ((coord ?n i')\<^sup>2 + (coord ?n j')\<^sup>2) / (2 * sigma\<^sup>2))))"
    unfolding k by (simp add: grid_nth grid_length gauss_def)
  have len: "length (gaussian_kernel ?n sigma) = ?n"
    unfolding k by (simp add: grid_length)
  show ?thesis
    using len cells c s by simp
qed

theorem gaussian_kernel_cells_and_sum_witness: "length (gaussian_kernel 3 1) = 3 \<and> sum2d (gaussian_kernel 3 1) = 1 \<and>
   gaussian_kernel 3 1 ! 1 ! 1 = 1 / (1 + 4 * exp (- (1 / 2)) + 4 * exp (- 1))"
proof -
  have t: "length (gaussian_kernel 3 1) = 3 \<and> sum2d (gaussian_kernel 3 1) = 1"
    using gaussian_kernel_cells_and_sum [of 1 1] by simp
  have u: "{..<3::nat} = {0, 1, 2}" by auto
  have "gaussian_kernel 3 1 ! 1 ! 1 =
          exp (- ((coord 3 1)\<^sup>2 + (coord 3 1)\<^sup>2) / (2 * 1\<^sup>2)) /
          (\<Sum>i' < 3. \<Sum>j' < 3. exp (- ((coord 3 i')\<^sup>2 + (coord 3 j')\<^sup>2) / (2 * 1\<^sup>2)))"
    using gaussian_kernel_cells_and_sum [of 1 1] by simp
  also have "\<dots> = 1 / (1 + 4 * exp (- (1 / 2)) + 4 * exp (- 1))"
    by (simp add: u coord_def)
  finally show ?thesis using t by simp
qed

subsection \<open>The loop over the batch and the eight-bit images\<close>

lemma setitem_Inr:
  "setitem result b v = Inr r \<longleftrightarrow>
     (\<exists>im. slice_of (shape result) v = Some im \<and> r = result\<lparr>vals := (vals result)[b := im]\<rparr>)"
  by (auto simp: setitem_def split: option.splits)

lemma per_image_result:
  assumes "per_image body image_t bs result = Inr r" "distinct bs"
    "\<forall>b \<in> set bs. b < length (vals result)"
  shows "shape r = shape result \<and> length (vals r) = length (vals result) \<and>
    (\<forall>b \<in> set bs. \<exists>v im. body (vals image_t ! b) = Inr v \<and>
        slice_of (shape result) v = Some im \<and> vals r ! b = im) \<and>
    (\<forall>b. b \<notin> set bs \<longrightarrow> vals r ! b = vals result ! b)"
  using assms
proof (induction bs arbitrary: result)
  case Nil
  then show ?case by simp
next
  case (Cons b bs)
  from Cons.prems(1) obtain v where v: "body (vals image_t ! b) = Inr v"
    by (auto split: sum.splits)
  from Cons.prems(1) v obtain result' where s: "setitem result b v = Inr result'"
    and p: "per_image body image_t bs result' = Inr r"
    by (auto split: sum.splits)
  from s obtain im where im: "slice_of (shape result) v = Some im"
    and r': "result' = result\<lparr>vals := (vals result)[b := im]\<rparr>"
    unfolding setitem_Inr by blast
  have sh: "shape result' = shape result" and len: "length (vals result') = length (vals result)"
    by (simp_all add: r')
  have ih: "shape r = shape result' \<and> length (vals r) = length (vals result') \<and>
    (\<forall>b \<in> set bs. \<exists>v im. body (vals image_t ! b) = Inr v \<and>
        slice_of (shape result') v = Some im \<and> vals r ! b = im) \<and>
    (\<forall>b. b \<notin> set bs \<longrightarrow> vals r ! b = vals result' ! b)"
    using Cons.IH [OF p] Cons.prems(2,3) len by simp
  have b: "b \<notin> set bs" "b < length (vals result)"
    using Cons.prems(2,3) by simp_all
  have rb: "vals r ! b = im"
    using ih b by (simp add: r')
  have other: "\<forall>c. c \<notin> set (b # bs) \<longrightarrow> vals r ! c = vals result ! c"
    using ih by (simp add: r')
  have here: "\<exists>v im. body (vals image_t ! c) = Inr v \<and>
      slice_of (shape result) v = Some im \<and> vals r ! c = im" if "c \<in> set (b # bs)" for c
  proof (cases "c = b")
    case True
    then show ?thesis using v im rb by blast
  next
    case False
    then have "c \<in> set bs" using that by simp
    then show ?thesis using ih sh by metis
  qed
  show ?case
    using ih sh len here other by simp
qed

lemma zeros_like_shape: "shape (zeros_like t) = shape t"
  by (cases "shape t") (simp add: zeros_like_def)

lemma zeros_like_length: "shape t = (B, H, W, C) \<Longrightarrow> length (vals (zeros_like t)) = B"
  by (simp add: zeros_like_def)

lemma batch_loop:
  assumes "shape image_t = (B, H, W, C)"
    "per_image body image_t [0..<B] (zeros_like image_t) = Inr r"
  shows "shape r = shape image_t \<and> length (vals r) = B \<and>
    (\<forall>b < B. \<exists>v im. body (vals image_t ! b) = Inr v \<and>
        slice_of (shape image_t) v = Some im \<and> vals r ! b = im)"
  using per_image_result [OF assms(2)] zeros_like_length [OF assms(1)] zeros_like_shape [of image_t]
  by simp




lemma float_array_wf:
  "float_array im = ((h, w, c), dat) \<Longrightarrow> wf_image h w c dat \<and> c = 3"
  by (cases "im_size im") (auto simp: float_array_def wf_image_def float_pixel_def split: prod.splits)

lemma set_expand: "length xs = n \<or> length xs = 1 \<Longrightarrow> set (expand n xs) \<subseteq> set xs"
  by (cases xs) (auto simp: expand_def)












subsection \<open>Rotate by angle 0\<close>










lemma expand_same: "length xs = n \<Longrightarrow> expand n xs = xs"
  by (simp add: expand_def)







subsection \<open>Quantize: the number of colours\<close>

lemma first_color_contract: "pil_quantize_contract first_color_quantize"
  by (auto simp: pil_quantize_contract_def first_color_quantize_def split: option.splits if_splits)

lemma convert_rgb_colors:
  assumes "\<forall>y < snd (p_size q). \<forall>x < fst (p_size q). p_indices q ! y ! x < length (p_palette q)"
  shows "image_colors (snd (float_array (convert_rgb q))) \<subseteq> float_pixel ` set (p_palette q)"
proof -
  obtain w h where s: "p_size q = (w, h)" by (cases "p_size q") auto
  show ?thesis
    using assms by (auto simp: image_colors_def float_array_def convert_rgb_def s Let_def)
qed

lemma broadcast_image_colors:
  assumes "wf_image h w C dat" "h = H \<or> h = 1" "w = W \<or> w = 1"
  shows "image_colors (broadcast_image H W C dat) \<subseteq> image_colors dat"
proof
  fix p assume "p \<in> image_colors (broadcast_image H W C dat)"
  then obtain row px where row: "row \<in> set (expand H dat)" and px: "px \<in> set (expand W row)"
    and p: "p = expand C px"
    by (auto simp: image_colors_def broadcast_image_def)
  have 1: "row \<in> set dat"
    using row set_expand [of dat H] assms(1,2) by (auto simp: wf_image_def)
  then have 2: "px \<in> set row"
    using px set_expand [of row W] assms(1,3) by (auto simp: wf_image_def)
  then have "length px = C"
    using assms(1) 1 by (auto simp: wf_image_def)
  then have "p = px"
    by (simp add: p expand_same)
  then show "p \<in> image_colors dat"
    using 1 2 by (auto simp: image_colors_def)
qed

lemma slice_of_float_array_colors:
  assumes "slice_of s (float_array im) = Some sl"
  shows "image_colors sl \<subseteq> image_colors (snd (float_array im))"
proof -
  obtain B H W C where s: "s = (B, H, W, C)" by (cases s) auto
  obtain h w c dat where f: "float_array im = ((h, w, c), dat)" by (cases "float_array im") auto
  note wf = float_array_wf [OF f]
  from assms have fits: "(h = H \<or> h = 1) \<and> (w = W \<or> w = 1) \<and> (c = C \<or> c = 1)"
    and sl: "sl = broadcast_image H W C dat"
    by (auto simp: slice_of_def s f split: if_splits)
  have "C = 3" using fits wf by auto
  then have "image_colors (broadcast_image H W C dat) \<subseteq> image_colors dat"
    using wf fits by (intro broadcast_image_colors [of h w]) auto
  then show ?thesis
    by (simp add: sl f)
qed

text \<open>
  Claim C8: for every image of the batch the image Quantize returns has at most \<open>K\<close>
  distinct colours, and it is computed from that image alone: its palette is the one
  Pillow builds from this image, and the image is quantized against it. The bound rests
  on Pillow's quantize keeping to \<open>pil_quantize_contract\<close>.
\<close>

theorem quantize_at_most_K_colors:
  assumes "pil_quantize_contract pil_quantize"
    "shape image_t = (B, H, W, C)"
    "quantize pil_quantize image_t K dither = Inr r"
    "b < B"
  shows "finite (image_colors (vals r ! b)) \<and> card (image_colors (vals r ! b)) \<le> K \<and>
    (\<exists>pil_im pal quantized_image.
       fromarray (H, W, C) (uint8_array (vals image_t ! b)) = Inr pil_im \<and>
       pil_quantize pil_im K None FLOYDSTEINBERG = Inr pal \<and>
       pil_quantize pil_im K (Some pal)
         (if dither = ''floyd-steinberg'' then FLOYDSTEINBERG else NONE) = Inr quantized_image \<and>
       slice_of (shape image_t) (float_array (convert_rgb quantized_image)) = Some (vals r ! b))"
proof -
  let ?d = "if dither = ''floyd-steinberg'' then FLOYDSTEINBERG else NONE"
  have loop: "per_image (quantize_body pil_quantize (H, W, C) K ?d) image_t [0..<B]
      (zeros_like image_t) = Inr r"
    using assms(3) by (simp add: quantize_def assms(2) Let_def)
  from batch_loop [OF assms(2) loop] assms(4)
  obtain v where v: "quantize_body pil_quantize (H, W, C) K ?d (vals image_t ! b) = Inr v"
    and sl: "slice_of (shape image_t) v = Some (vals r ! b)"
    by auto
  from v obtain pil_im pal q where
    f: "fromarray (H, W, C) (uint8_array (vals image_t ! b)) = Inr pil_im" and
    p: "pil_quantize pil_im K None FLOYDSTEINBERG = Inr pal" and
    q: "pil_quantize pil_im K (Some pal) ?d = Inr q" and
    vq: "v = float_array (convert_rgb q)"
    by (auto simp: quantize_body_def split: sum.splits)
  have len: "length (p_palette q) \<le> K"
    and idx: "\<forall>y < snd (p_size q). \<forall>x < fst (p_size q). p_indices q ! y ! x < length (p_palette q)"
    using assms(1) p q unfolding pil_quantize_contract_def by metis+
  have sub: "image_colors (vals r ! b) \<subseteq> float_pixel ` set (p_palette q)"
    using slice_of_float_array_colors [of "shape image_t" "convert_rgb q" "vals r ! b"]
      convert_rgb_colors [OF idx] sl vq by auto
  have fin: "finite (image_colors (vals r ! b))"
    using sub by (rule finite_subset) simp
  have "card (image_colors (vals r ! b)) \<le> card (float_pixel ` set (p_palette q))"
    using sub by (intro card_mono) simp_all
  also have "\<dots> \<le> card (set (p_palette q))"
    by (rule card_image_le) simp
  also have "\<dots> \<le> length (p_palette q)"
    by (rule card_length)
  finally have card: "card (image_colors (vals r ! b)) \<le> K"
    using len by simp
  show ?thesis
    using fin card f p q sl vq by blast
qed


text \<open>Two images of two pixels, one colour asked for: each comes back in its own colour.\<close>

theorem quantize_at_most_K_colors_witness:
  "pil_quantize_contract first_color_quantize \<and>
   quantize first_color_quantize
     \<lparr>shape = (2, 1, 2, 3), vals = [[[[1, 0, 0], [0, 1, 0]]], [[[0, 0, 1], [0, 0, 1]]]]\<rparr> 1 ''none'' =
     Inr \<lparr>shape = (2, 1, 2, 3), vals = [[[[1, 0, 0], [1, 0, 0]]], [[[0, 0, 1], [0, 0, 1]]]]\<rparr> \<and>
   card (image_colors [[[1, 0, 0], [1, 0, 0 :: real]]]) \<le> 1 \<and>
   card (image_colors [[[0, 0, 1], [0, 0, 1 :: real]]]) \<le> 1"
proof -
  let ?T = "\<lparr>shape = (2, 1, 2, 3), vals = [[[[1, 0, 0], [0, 1, 0 :: real]]], [[[0, 0, 1], [0, 0, 1]]]]\<rparr>"
  let ?R = "\<lparr>shape = (2, 1, 2, 3), vals = [[[[1, 0, 0], [1, 0, 0 :: real]]], [[[0, 0, 1], [0, 0, 1]]]]\<rparr>"
  have u: "[0..<2] = [0, 1]" by (simp add: upt_rec)
  have r2: "replicate 2 x = [x, x]" for x :: 'a by (simp add: numeral_2_eq_2)
  have q: "quantize first_color_quantize ?T 1 ''none'' = Inr ?R"
    by (simp add: quantize_def zeros_like_def quantize_body_def fromarray_def convert_rgb_def
        first_color_quantize_def u r2
        float_array_def float_pixel_def setitem_def slice_of_def
        broadcast_image_def uint8_array_def map_image_def to_uint8_def expand_def)
  have sh: "shape ?T = (2, 1, 2, 3)" by simp
  note inst = quantize_at_most_K_colors [OF first_color_contract sh q]
  have "card (image_colors (vals ?R ! 0)) \<le> 1" "card (image_colors (vals ?R ! 1)) \<le> 1"
    using inst [of 0] inst [of 1] by simp_all
  then show ?thesis
    using first_color_contract q by simp
qed

subsection \<open>The fill colour parser\<close>




lemma not_digit_simps [simp]:
  "\<not> is_digit CHR '',''" "\<not> is_digit CHR ''(''" "\<not> is_digit CHR '')''" "\<not> is_digit (CHR 0x0A)"
  by (simp_all add: is_digit_def)
















lemma lower_char_hash [simp]: "lower_char CHR ''#'' = CHR ''#''" "lower_char (CHR 0x0A) = CHR 0x0A"
  "lower_char CHR ''('' = CHR ''(''"
  by (simp_all add: lower_char_def)












end
